theory Spec2Isabelle
  imports Main "HOL-Library.Product_Lexorder" "HOL-Library.Multiset"
begin

section \<open>Nostra Alpha loan-state computation: the data\<close>

text \<open>
  The development follows \<^verbatim>\<open>handlers/loan_states/nostra_alpha/run.py\<close>: the class
  \<^verbatim>\<open>NostraAlphaStateComputation\<close> with its methods \<^verbatim>\<open>process_interest_rate_event\<close>,
  \<^verbatim>\<open>process_data\<close>, \<^verbatim>\<open>process_event\<close> and \<^verbatim>\<open>run\<close>.

  A raw event is a dictionary; the code reads the keys \<^verbatim>\<open>from_address\<close>, \<^verbatim>\<open>key_name\<close>,
  \<^verbatim>\<open>block_number\<close> and \<^verbatim>\<open>id\<close>. The block number is read with \<^verbatim>\<open>event.get\<close>, so a
  missing one is a value of the model (\<open>None\<close>); everything else an event carries is
  its payload, which only the ledger operations read.
\<close>

type_synonym address = string

record 'p event =
  from_address :: address
  key_name :: string
  block_number :: "int option"
  event_id :: int
  payload :: 'p

text \<open>
  Exceptions are values. \<open>KeyError\<close> is a failed dictionary lookup, \<open>AttributeError\<close>
  a failed \<^verbatim>\<open>getattr\<close>, \<open>Error\<close> anything a collaborator raises.
\<close>

datatype exc = KeyError | AttributeError | Error string

text \<open>The lines written to the logger, in the order they are written.\<close>

datatype log_entry =
    Failed_to_process_event exc
  | Default_last_block int
  | Reached_the_last_block int
  | No_data_for_block int
  | Processed_data_up_to_block int
  | Reached_max_retries int

text \<open>
  The computation object (\<^verbatim>\<open>self\<close>): the checkpoint \<^verbatim>\<open>last_block\<close>, the interest-rate
  history that \<^verbatim>\<open>add_interest_rate_data\<close> accumulates, and the log. The ledger is not a
  field of it: \<^verbatim>\<open>process_data\<close> holds the ledger in a local variable.
\<close>

record 'r computation =
  last_block :: int
  interest_rate_result :: 'r
  logged :: "log_entry list"

text \<open>
  What \<^verbatim>\<open>run.py\<close> imports and inherits is a parameter of the model: the constants of
  \<^verbatim>\<open>events.py\<close> and \<^verbatim>\<open>constants.py\<close>, the ledger class \<^verbatim>\<open>NostraAlphaState\<close> (type \<open>'s\<close>,
  its account table \<open>'e\<close>) and the methods of \<^verbatim>\<open>LoanStateComputationBase\<close>.
  A ledger operation mutates the ledger in place and may raise after it has mutated:
  it returns the ledger it leaves behind together with the exception, if any.
  The two fetches answer the \<open>n\<close>-th iteration of the loop for a starting block; they
  and the two saves may raise.
\<close>

record ('p, 's, 'e, 'r, 'd) env =
  INTEREST_RATE_MODEL_ADDRESS :: address
  EVENTS_MAPPING :: "string \<rightharpoonup> string"
  ADDRESSES_TO_EVENTS :: "address \<rightharpoonup> string"
  EVENTS_METHODS_MAPPING :: "(string \<times> string) \<rightharpoonup> string"
  PAGINATION_SIZE :: int
  NostraAlphaState :: 's
  getattr :: "string \<rightharpoonup> ('s \<Rightarrow> 'p event \<Rightarrow> 's \<times> exc option)"
  process_interest_rate_model_event :: "'s \<Rightarrow> 'p event \<Rightarrow> 's \<times> exc option"
  loan_entities :: "'s \<Rightarrow> 'e"
  add_interest_rate_data :: "'r \<Rightarrow> 's \<Rightarrow> 'p event \<Rightarrow> 'r \<times> exc option"
  get_result_df :: "'e \<Rightarrow> 'd"
  get_data :: "nat \<Rightarrow> int \<Rightarrow> exc + 'p event list"
  get_addresses_data :: "nat \<Rightarrow> int \<Rightarrow> exc + 'p event list"
  save_data :: "'d \<Rightarrow> exc option"
  save_interest_rate_data :: "'r \<Rightarrow> 'r \<times> exc option"

definition INTEREST_RATES_KEYS :: "string list" where
  "INTEREST_RATES_KEYS = [''InterestStateUpdated'']"

section \<open>The operations\<close>

subsection \<open>\<^verbatim>\<open>process_interest_rate_event\<close>\<close>

text \<open>
  The ledger folds the event, then the history records it. When the fold raises, the
  history is not reached. The result is the computation, the ledger and the exception
  that leaves the method, if any.
\<close>

definition process_interest_rate_event ::
  "('p, 's, 'e, 'r, 'd) env \<Rightarrow> 'r computation \<Rightarrow> 's \<Rightarrow> 'p event
     \<Rightarrow> 'r computation \<times> 's \<times> exc option" where
  "process_interest_rate_event E c nostra_state ev =
     (case process_interest_rate_model_event E nostra_state ev of
        (st, Some e) \<Rightarrow> (c, st, Some e)
      | (st, None) \<Rightarrow>
          (case add_interest_rate_data E (interest_rate_result c) st ev of
             (r, x) \<Rightarrow> (c\<lparr>interest_rate_result := r\<rparr>, st, x)))"

subsection \<open>\<^verbatim>\<open>process_event\<close>\<close>

text \<open>
  \<^verbatim>\<open>except Exception\<close>: the exception is logged and the method returns.
\<close>

definition log_exception :: "'r computation \<Rightarrow> exc \<Rightarrow> 'r computation" where
  "log_exception c e = c\<lparr>logged := logged c @ [Failed_to_process_event e]\<rparr>"

text \<open>
  The ordinary dispatch, which follows \<^verbatim>\<open>self.last_block = block_number\<close>: the
  two dictionary lookups, \<^verbatim>\<open>getattr\<close>, the call. Each may raise, in this order.
\<close>

definition dispatch ::
  "('p, 's, 'e, 'r, 'd) env \<Rightarrow> 's \<Rightarrow> 'p event \<Rightarrow> 's \<times> exc option" where
  "dispatch E instance_state ev =
     (case ADDRESSES_TO_EVENTS E (from_address ev) of
        None \<Rightarrow> (instance_state, Some KeyError)
      | Some event_type \<Rightarrow>
          (case EVENTS_METHODS_MAPPING E (event_type, key_name ev) of
             None \<Rightarrow> (instance_state, Some KeyError)
           | Some name \<Rightarrow>
               (case getattr E name of
                  None \<Rightarrow> (instance_state, Some AttributeError)
                | Some method \<Rightarrow> method instance_state ev)))"

text \<open>
  An event of the interest-rate model is handled first and the method returns. For
  any other event, \<^verbatim>\<open>block_number and block_number >= self.last_block\<close> decides:
  a missing block number and the block number 0 are false. The parameter
  \<^verbatim>\<open>method_name\<close> is not used by the source either.
\<close>

definition process_event ::
  "('p, 's, 'e, 'r, 'd) env \<Rightarrow> 'r computation \<Rightarrow> 's \<Rightarrow> string \<Rightarrow> 'p event
     \<Rightarrow> 'r computation \<times> 's" where
  "process_event E c instance_state method_name ev =
     (if from_address ev = INTEREST_RATE_MODEL_ADDRESS E then
        (case process_interest_rate_event E c instance_state ev of
           (c', st, None) \<Rightarrow> (c', st)
         | (c', st, Some e) \<Rightarrow> (log_exception c' e, st))
      else
        (case block_number ev of
           None \<Rightarrow> (c, instance_state)
         | Some b \<Rightarrow>
             if b \<noteq> 0 \<and> last_block c \<le> b then
               (case dispatch E instance_state ev of
                  (st, None) \<Rightarrow> (c\<lparr>last_block := b\<rparr>, st)
                | (st, Some e) \<Rightarrow> (log_exception (c\<lparr>last_block := b\<rparr>) e, st))
             else (c, instance_state)))"

subsection \<open>\<^verbatim>\<open>process_data\<close>\<close>

text \<open>
  \<^verbatim>\<open>df[df["key_name"].isin(events_with_interest_rate)]\<close>: the names kept are the keys
  of \<^verbatim>\<open>EVENTS_MAPPING\<close> and \<^verbatim>\<open>INTEREST_RATES_KEYS\<close>.
\<close>

definition isin_events_with_interest_rate ::
  "('p, 's, 'e, 'r, 'd) env \<Rightarrow> 'p event \<Rightarrow> bool" where
  "isin_events_with_interest_rate E ev =
     (EVENTS_MAPPING E (key_name ev) \<noteq> None \<or> key_name ev \<in> set INTEREST_RATES_KEYS)"

text \<open>
  \<^verbatim>\<open>sort_values(["block_number", "id"])\<close>: ascending in the block number, then in
  the id, rows without a block number last, rows with equal keys in the order of the
  frame (a sort on several columns is stable).
\<close>

definition sort_values_key :: "'p event \<Rightarrow> nat \<times> int \<times> int" where
  "sort_values_key ev =
     (case block_number ev of
        None \<Rightarrow> (1, 0, event_id ev)
      | Some b \<Rightarrow> (0, b, event_id ev))"

definition sorted_df :: "('p, 's, 'e, 'r, 'd) env \<Rightarrow> 'p event list \<Rightarrow> 'p event list" where
  "sorted_df E data = sort_key sort_values_key (filter (isin_events_with_interest_rate E) data)"

text \<open>
  \<^verbatim>\<open>self.EVENTS_MAPPING.get(row["key_name"], "") or ""\<close>
\<close>

definition method_name_of :: "('p, 's, 'e, 'r, 'd) env \<Rightarrow> 'p event \<Rightarrow> string" where
  "method_name_of E ev = (case EVENTS_MAPPING E (key_name ev) of None \<Rightarrow> '''' | Some m \<Rightarrow> m)"

text \<open>The loop over the rows of the sorted frame.\<close>

fun process_rows ::
  "('p, 's, 'e, 'r, 'd) env \<Rightarrow> 'r computation \<Rightarrow> 's \<Rightarrow> 'p event list
     \<Rightarrow> 'r computation \<times> 's" where
  "process_rows E c st [] = (c, st)"
| "process_rows E c st (row # rows) =
     (case process_event E c st (method_name_of E row) row of
        (c', st') \<Rightarrow> process_rows E c' st' rows)"

text \<open>
  A frame built from the empty list has no column \<^verbatim>\<open>key_name\<close>: the filter raises
  \<open>KeyError\<close>, outside any \<^verbatim>\<open>try\<close>. Otherwise the ledger starts as a new
  \<^verbatim>\<open>NostraAlphaState()\<close>, and the result is the frame of its account table, with the
  computation as the rows left it.
\<close>

definition process_data ::
  "('p, 's, 'e, 'r, 'd) env \<Rightarrow> 'r computation \<Rightarrow> 'p event list
     \<Rightarrow> exc + ('d \<times> 'r computation)" where
  "process_data E c data =
     (if data = [] then Inl KeyError
      else (case process_rows E c (NostraAlphaState E) (sorted_df E data) of
              (c', nostra_alpha_state) \<Rightarrow>
                Inr (get_result_df E (loan_entities E nostra_alpha_state), c')))"

subsection \<open>The ledger as an object\<close>





subsection \<open>\<^verbatim>\<open>run\<close>\<close>

text \<open>
  One pass through the body of the \<^verbatim>\<open>while\<close> loop, entered with the loop condition
  true, in iteration \<open>n\<close>. It ends with \<^verbatim>\<open>break\<close>, with the next values of \<^verbatim>\<open>retry\<close> and
  \<^verbatim>\<open>self\<close>, or with an exception that leaves \<^verbatim>\<open>run\<close>.
\<close>

datatype 'r step = Break "'r computation" | Next int "'r computation" | Raise exc "'r computation"

definition info :: "'r computation \<Rightarrow> log_entry \<Rightarrow> 'r computation" where
  "info c l = c\<lparr>logged := logged c @ [l]\<rparr>"

definition no_data :: "('p, 's, 'e, 'r, 'd) env \<Rightarrow> 'r computation \<Rightarrow> 'r computation" where
  "no_data E c =
     (info c (No_data_for_block (last_block c)))\<lparr>last_block := last_block c + PAGINATION_SIZE E\<rparr>"

definition update_last_block ::
  "('p, 's, 'e, 'r, 'd) env \<Rightarrow> 'r computation \<Rightarrow> 'r computation" where
  "update_last_block E c =
     info (c\<lparr>last_block := last_block c + PAGINATION_SIZE E\<rparr>)
          (Processed_data_up_to_block (last_block c + PAGINATION_SIZE E))"

definition save ::
  "('p, 's, 'e, 'r, 'd) env \<Rightarrow> 'd \<Rightarrow> 'r computation \<Rightarrow> 'r step" where
  "save E processed_data c =
     (case save_data E processed_data of
        Some e \<Rightarrow> Raise e c
      | None \<Rightarrow>
          (case save_interest_rate_data E (interest_rate_result c) of
             (r, Some e) \<Rightarrow> Raise e (c\<lparr>interest_rate_result := r\<rparr>)
           | (r, None) \<Rightarrow> Next 0 (update_last_block E (c\<lparr>interest_rate_result := r\<rparr>))))"

definition loop_body ::
  "('p, 's, 'e, 'r, 'd) env \<Rightarrow> int \<Rightarrow> nat \<Rightarrow> int \<Rightarrow> 'r computation \<Rightarrow> 'r step" where
  "loop_body E final_block n retry c =
     (if final_block \<le> last_block c then Break (info c (Reached_the_last_block (last_block c)))
      else
        (case get_data E n (last_block c) of
           Inl e \<Rightarrow> Raise e c
         | Inr interest_rate_data \<Rightarrow>
             (case get_addresses_data E n (last_block c) of
                Inl e \<Rightarrow> Raise e c
              | Inr data \<Rightarrow>
                  if data = [] then Next (retry + 1) (no_data E c)
                  else
                    (case process_data E c (interest_rate_data @ data) of
                       Inl e \<Rightarrow> Raise e c
                     | Inr (processed_data, c') \<Rightarrow> save E processed_data c'))))"

text \<open>
  How \<^verbatim>\<open>run\<close> ends: it returns, after the loop was left by \<^verbatim>\<open>break\<close> or by its
  condition, with the number of iterations whose body ran to its end, the final
  \<^verbatim>\<open>retry\<close> and \<^verbatim>\<open>self\<close>; or an exception leaves it.
\<close>

datatype 'r result =
    Returned bool nat int "'r computation"
  | Raised exc nat "'r computation"

text \<open>
  The \<^verbatim>\<open>while\<close> loop, with fuel: \<open>None\<close> says the fuel ran out before the loop
  ended. The bounds are parameters here; \<open>run\<close> fixes them.
\<close>

fun while_loop ::
  "('p, 's, 'e, 'r, 'd) env \<Rightarrow> int \<Rightarrow> int \<Rightarrow> nat \<Rightarrow> nat \<Rightarrow> int \<Rightarrow> 'r computation
     \<Rightarrow> 'r result option" where
  "while_loop E max_retries final_block 0 n retry c = None"
| "while_loop E max_retries final_block (Suc fuel) n retry c =
     (if retry < max_retries then
        (case loop_body E final_block n retry c of
           Break c' \<Rightarrow> Some (Returned True n retry c')
         | Raise e c' \<Rightarrow> Some (Raised e n c')
         | Next retry' c' \<Rightarrow> while_loop E max_retries final_block fuel (Suc n) retry' c')
      else Some (Returned False n retry c))"

text \<open>
  \<^verbatim>\<open>run\<close> from given bounds and a given first block: the line before the loop, the
  loop, the line after it.
\<close>

definition after_loop :: "int \<Rightarrow> 'r result \<Rightarrow> 'r result" where
  "after_loop max_retries res =
     (case res of
        Returned b n retry c \<Rightarrow>
          Returned b n retry
            (if retry = max_retries then info c (Reached_max_retries (last_block c)) else c)
      | Raised e n c \<Rightarrow> Raised e n c)"

definition run_from ::
  "('p, 's, 'e, 'r, 'd) env \<Rightarrow> int \<Rightarrow> int \<Rightarrow> int \<Rightarrow> nat \<Rightarrow> 'r computation
     \<Rightarrow> 'r result option" where
  "run_from E max_retries first_block final_block fuel c =
     map_option (after_loop max_retries)
       (while_loop E max_retries final_block fuel 0 0
          (info (c\<lparr>last_block := first_block\<rparr>) (Default_last_block first_block)))"

text \<open>\<^verbatim>\<open>run\<close>, with the constants of the source.\<close>

definition run ::
  "('p, 's, 'e, 'r, 'd) env \<Rightarrow> nat \<Rightarrow> 'r computation \<Rightarrow> 'r result option" where
  "run E fuel c = run_from E 1000000 10854 647952 fuel c"

text \<open>
  The terminal states of the loop: \<open>DONE\<close> when it is left by \<^verbatim>\<open>break\<close>,
  \<open>RETRY_EXHAUSTED\<close> when it is left with \<^verbatim>\<open>retry == max_retries\<close>, the test of
  the line after the loop.
\<close>

datatype terminal = DONE | RETRY_EXHAUSTED

fun terminal_state :: "int \<Rightarrow> 'r result \<Rightarrow> terminal option" where
  "terminal_state max_retries (Returned b n retry c) =
     (if b then Some DONE else if retry = max_retries then Some RETRY_EXHAUSTED else None)"
| "terminal_state max_retries (Raised e n c) = None"

fun checkpoint :: "'r result \<Rightarrow> int" where
  "checkpoint (Returned b n retry c) = last_block c"
| "checkpoint (Raised e n c) = last_block c"

fun iterations :: "'r result \<Rightarrow> nat" where
  "iterations (Returned b n retry c) = n"
| "iterations (Raised e n c) = n"

section \<open>What the rows do to the checkpoint\<close>

text \<open>
  The block numbers that can move \<^verbatim>\<open>self.last_block\<close> while the rows of a frame are
  processed: those of the rows that are not events of the interest-rate model and
  carry a block number other than 0.
\<close>

definition ordinary_blocks :: "('p, 's, 'e, 'r, 'd) env \<Rightarrow> 'p event list \<Rightarrow> int list" where
  "ordinary_blocks E rows =
     filter (\<lambda>b. b \<noteq> 0)
       (List.map_filter block_number
          (filter (\<lambda>row. from_address row \<noteq> INTEREST_RATE_MODEL_ADDRESS E) rows))"

section \<open>A small protocol instance\<close>

text \<open>
  One market contract whose \<open>Mint\<close> event credits the amount times the current rate
  and refuses a negative amount; the interest-rate model sets the rate. The ledger is
  the pair of the rate and the collateral, the account table is the collateral, the
  history is the list of the rates seen. The name \<open>Burn\<close> is tracked but has no
  operation for the market. Pages are 1000 blocks; the fetches find nothing and the
  saves succeed unless an instance below says otherwise.
\<close>

definition process_collateral_mint :: "int \<times> int \<Rightarrow> int event \<Rightarrow> (int \<times> int) \<times> exc option" where
  "process_collateral_mint st ev =
     (if payload ev < 0 then (st, Some (Error ''negative amount''))
      else ((fst st, snd st + payload ev * fst st), None))"

definition market :: "(int, int \<times> int, int, int list, int) env" where
  "market = \<lparr>
     INTEREST_RATE_MODEL_ADDRESS = ''0xIRM'',
     EVENTS_MAPPING = [''Mint'' \<mapsto> ''process_mint'', ''Burn'' \<mapsto> ''process_burn''],
     ADDRESSES_TO_EVENTS = [''0xMarket'' \<mapsto> ''collateral''],
     EVENTS_METHODS_MAPPING = [(''collateral'', ''Mint'') \<mapsto> ''process_collateral_mint''],
     PAGINATION_SIZE = 1000,
     NostraAlphaState = (0, 0),
     getattr = [''process_collateral_mint'' \<mapsto> process_collateral_mint],
     process_interest_rate_model_event = (\<lambda>st ev. ((payload ev, snd st), None)),
     loan_entities = snd,
     add_interest_rate_data = (\<lambda>r st ev. (r @ [fst st], None)),
     get_result_df = (\<lambda>e. e),
     get_data = (\<lambda>n b. Inr []),
     get_addresses_data = (\<lambda>n b. Inr []),
     save_data = (\<lambda>d. None),
     save_interest_rate_data = (\<lambda>r. ([], None))
   \<rparr>"

definition fetching ::
  "int event list \<Rightarrow> int event list \<Rightarrow> (int, int \<times> int, int, int list, int) env" where
  "fetching interest_rate_data data =
     market\<lparr>get_data := \<lambda>n b. Inr interest_rate_data, get_addresses_data := \<lambda>n b. Inr data\<rparr>"

definition self_at :: "int \<Rightarrow> int list computation" where
  "self_at b = \<lparr>last_block = b, interest_rate_result = [], logged = []\<rparr>"

definition rate_update :: "int \<Rightarrow> int \<Rightarrow> int \<Rightarrow> int event" where
  "rate_update b i r = \<lparr>from_address = ''0xIRM'', key_name = ''InterestStateUpdated'',
     block_number = Some b, event_id = i, payload = r\<rparr>"

definition mint :: "int \<Rightarrow> int \<Rightarrow> int \<Rightarrow> int event" where
  "mint b i amount = \<lparr>from_address = ''0xMarket'', key_name = ''Mint'',
     block_number = Some b, event_id = i, payload = amount\<rparr>"

definition burn :: "int \<Rightarrow> int \<Rightarrow> int \<Rightarrow> int event" where
  "burn b i amount = \<lparr>from_address = ''0xMarket'', key_name = ''Burn'',
     block_number = Some b, event_id = i, payload = amount\<rparr>"

lemmas instance_defs =
  market_def fetching_def self_at_def rate_update_def mint_def burn_def
  process_collateral_mint_def INTEREST_RATES_KEYS_def

section \<open>Routing a single event\<close>

lemmas op_defs =
  process_data_def sorted_df_def isin_events_with_interest_rate_def sort_values_key_def
  process_event_def method_name_of_def process_interest_rate_event_def dispatch_def
  log_exception_def loop_body_def save_def no_data_def update_last_block_def info_def

lemma process_event_method_name:
  "process_event E c st m ev = process_event E c st m' ev"
  by (simp add: process_event_def)

lemma process_event_irm:
  "from_address ev = INTEREST_RATE_MODEL_ADDRESS E \<Longrightarrow>
   process_event E c st m ev =
     (case process_interest_rate_event E c st ev of
        (c', st', None) \<Rightarrow> (c', st')
      | (c', st', Some e) \<Rightarrow> (log_exception c' e, st'))"
  by (simp add: process_event_def)

lemma process_event_dropped:
  "from_address ev \<noteq> INTEREST_RATE_MODEL_ADDRESS E \<Longrightarrow>
   block_number ev = None \<or> block_number ev = Some 0 \<or>
     (\<exists>b. block_number ev = Some b \<and> b < last_block c) \<Longrightarrow>
   process_event E c st m ev = (c, st)"
  by (auto simp: process_event_def)

lemma process_event_ordinary:
  "from_address ev \<noteq> INTEREST_RATE_MODEL_ADDRESS E \<Longrightarrow>
   block_number ev = Some b \<Longrightarrow> b \<noteq> 0 \<Longrightarrow> last_block c \<le> b \<Longrightarrow>
   process_event E c st m ev =
     (case dispatch E st ev of
        (st', None) \<Rightarrow> (c\<lparr>last_block := b\<rparr>, st')
      | (st', Some e) \<Rightarrow> (log_exception (c\<lparr>last_block := b\<rparr>) e, st'))"
  by (simp add: process_event_def)

lemma interest_rate_event_ledger:
  "fst (snd (process_interest_rate_event E c st ev)) =
     fst (process_interest_rate_model_event E st ev)"
  by (simp add: process_interest_rate_event_def split: prod.splits option.splits)

lemma interest_rate_event_last_block:
  "last_block (fst (process_interest_rate_event E c st ev)) = last_block c"
  by (simp add: process_interest_rate_event_def split: prod.splits option.splits)

lemma interest_rate_event_logged:
  "logged (fst (process_interest_rate_event E c st ev)) = logged c"
  by (simp add: process_interest_rate_event_def split: prod.splits option.splits)

lemma process_event_irm_ledger:
  "from_address ev = INTEREST_RATE_MODEL_ADDRESS E \<Longrightarrow>
   snd (process_event E c st m ev) = fst (process_interest_rate_model_event E st ev)"
  using interest_rate_event_ledger [of E c st ev]
  by (auto simp: process_event_irm split: prod.splits option.splits)

lemma process_event_irm_last_block:
  "from_address ev = INTEREST_RATE_MODEL_ADDRESS E \<Longrightarrow>
   last_block (fst (process_event E c st m ev)) = last_block c"
  using interest_rate_event_last_block [of E c st ev]
  by (auto simp: process_event_irm log_exception_def split: prod.splits option.splits)

lemma dispatch_unmapped:
  "ADDRESSES_TO_EVENTS E (from_address ev) = None \<or>
   (\<exists>t. ADDRESSES_TO_EVENTS E (from_address ev) = Some t \<and>
        EVENTS_METHODS_MAPPING E (t, key_name ev) = None) \<Longrightarrow>
   dispatch E st ev = (st, Some KeyError)"
  by (auto simp: dispatch_def)

lemma process_rows_append:
  "process_rows E c st (xs @ ys) =
     (case process_rows E c st xs of (c', st') \<Rightarrow> process_rows E c' st' ys)"
  by (induction xs arbitrary: c st) (auto split: prod.splits)

lemma process_rows_Cons:
  "process_event E c st m row = (c', st') \<Longrightarrow>
   process_rows E c st (row # rows) = process_rows E c' st' rows"
  using process_event_method_name [of E c st m row "method_name_of E row"] by simp

text \<open>
  C10. A record that is not from the interest-rate model and whose block number is
  missing, is 0, or is below \<^verbatim>\<open>self.last_block\<close> when it is processed changes nothing:
  \<open>process_event\<close> returns the computation (checkpoint, history and log) and the
  ledger it was given, for every ledger and every set of ledger operations, so no
  operation ran and no line was logged. A record from the interest-rate model is
  not subject to the test: whatever its block number, the ledger is the one its
  fold leaves, and the checkpoint stays.
\<close>

theorem stale_event_dropped:
  "(from_address ev \<noteq> INTEREST_RATE_MODEL_ADDRESS E \<and>
    (block_number ev = None \<or> block_number ev = Some 0 \<or>
     (\<exists>b. block_number ev = Some b \<and> b < last_block c))
      \<longrightarrow> process_event E c st m ev = (c, st)) \<and>
   (from_address ev = INTEREST_RATE_MODEL_ADDRESS E
      \<longrightarrow> snd (process_event E c st m ev) = fst (process_interest_rate_model_event E st ev) \<and>
          last_block (fst (process_event E c st m ev)) = last_block c)"
  using process_event_dropped [of ev E c st m]
    process_event_irm_ledger [of ev E c st m] process_event_irm_last_block [of ev E c st m]
  by blast

theorem stale_event_dropped_witness:
  "process_event market (self_at 100) (5, 7) ''process_mint'' (mint 99 1 10) = (self_at 100, (5, 7)) \<and>
   process_event market (self_at 100) (5, 7) ''process_mint'' (mint 0 1 10) = (self_at 100, (5, 7)) \<and>
   process_event market (self_at 100) (5, 7) ''process_mint''
     ((mint 0 1 10)\<lparr>block_number := None\<rparr>) = (self_at 100, (5, 7)) \<and>
   snd (process_event market (self_at 100) (5, 7) '''' (rate_update 99 1 3)) = (3, 7) \<and>
   last_block (fst (process_event market (self_at 100) (5, 7) '''' (rate_update 99 1 3))) = 100"
  using stale_event_dropped [of "mint 99 1 10" market "self_at 100" "(5, 7)" "''process_mint''"]
    stale_event_dropped [of "mint 0 1 10" market "self_at 100" "(5, 7)" "''process_mint''"]
    stale_event_dropped [of "(mint 0 1 10)\<lparr>block_number := None\<rparr>" market "self_at 100" "(5, 7)"
      "''process_mint''"]
    stale_event_dropped [of "rate_update 99 1 3" market "self_at 100" "(5, 7)" "''''"]
  by (simp add: instance_defs)

text \<open>
  C6, as the code has it. A record that is not from the interest-rate model and for
  which the dispatch tables have no operation (its address has no category, or the
  pair of the category and the event name has no entry): wherever it stands in the
  rows, the ledger after it is the ledger before it, the history is untouched and
  the rows that follow are processed from the same ledger; \<open>process_event\<close> returns
  a pair, so no exception leaves it. The two lookups are inside the block test. When
  the record passes the test, its block number is written to the checkpoint, the
  lookup fails and the failure is logged. When it does not (block number missing, 0
  or below the checkpoint), the lookup is not reached and nothing is logged.
\<close>

theorem unmapped_event_skipped:
  assumes "from_address ev \<noteq> INTEREST_RATE_MODEL_ADDRESS E"
    and "ADDRESSES_TO_EVENTS E (from_address ev) = None \<or>
         (\<exists>t. ADDRESSES_TO_EVENTS E (from_address ev) = Some t \<and>
              EVENTS_METHODS_MAPPING E (t, key_name ev) = None)"
    and "process_rows E c st pre = (c1, s1)"
  shows "snd (process_event E c1 s1 m ev) = s1 \<and>
         interest_rate_result (fst (process_event E c1 s1 m ev)) = interest_rate_result c1 \<and>
         (\<forall>b. block_number ev = Some b \<and> b \<noteq> 0 \<and> last_block c1 \<le> b \<longrightarrow>
            logged (fst (process_event E c1 s1 m ev)) =
              logged c1 @ [Failed_to_process_event KeyError] \<and>
            last_block (fst (process_event E c1 s1 m ev)) = b) \<and>
         (block_number ev = None \<or> block_number ev = Some 0 \<or>
          (\<exists>b. block_number ev = Some b \<and> b < last_block c1) \<longrightarrow>
            fst (process_event E c1 s1 m ev) = c1) \<and>
         process_rows E c st (pre @ ev # post) =
           process_rows E (fst (process_event E c1 s1 m ev)) s1 post"
proof -
  have d: "dispatch E s1 ev = (s1, Some KeyError)"
    using assms(2) by (rule dispatch_unmapped)
  have unchanged: "snd (process_event E c1 s1 m ev) = s1"
    using assms(1) d by (simp add: process_event_def split: option.splits)
  have history: "interest_rate_result (fst (process_event E c1 s1 m ev)) = interest_rate_result c1"
    using assms(1) d by (simp add: process_event_def log_exception_def split: option.splits)
  have reached: "\<forall>b. block_number ev = Some b \<and> b \<noteq> 0 \<and> last_block c1 \<le> b \<longrightarrow>
         logged (fst (process_event E c1 s1 m ev)) = logged c1 @ [Failed_to_process_event KeyError] \<and>
         last_block (fst (process_event E c1 s1 m ev)) = b"
    using assms(1) d by (simp add: process_event_def log_exception_def)
  have dropped: "block_number ev = None \<or> block_number ev = Some 0 \<or>
        (\<exists>b. block_number ev = Some b \<and> b < last_block c1) \<longrightarrow>
      fst (process_event E c1 s1 m ev) = c1"
    using process_event_dropped [OF assms(1), of c1 s1 m] by auto
  have "process_event E c1 s1 m ev = (fst (process_event E c1 s1 m ev), s1)"
    using unchanged by (simp add: prod_eq_iff)
  then have "process_rows E c1 s1 (ev # post) =
         process_rows E (fst (process_event E c1 s1 m ev)) s1 post"
    by (rule process_rows_Cons)
  then have rest: "process_rows E c st (pre @ ev # post) =
         process_rows E (fst (process_event E c1 s1 m ev)) s1 post"
    using assms(3) by (simp add: process_rows_append)
  show ?thesis
    using unchanged history reached dropped rest by blast
qed

theorem unmapped_event_skipped_witness:
  "process_rows market (self_at 0) (5, 0) [mint 98 1 2] = (self_at 98, (5, 10)) \<and>
   snd (process_event market (self_at 98) (5, 10) ''process_burn'' (burn 99 1 4)) = (5, 10) \<and>
   logged (fst (process_event market (self_at 98) (5, 10) ''process_burn'' (burn 99 1 4))) =
     [Failed_to_process_event KeyError] \<and>
   last_block (fst (process_event market (self_at 98) (5, 10) ''process_burn'' (burn 99 1 4))) = 99 \<and>
   process_rows market (self_at 0) (5, 0) ([mint 98 1 2] @ burn 99 1 4 # [mint 100 1 1]) =
     (\<lparr>last_block = 100, interest_rate_result = [], logged = [Failed_to_process_event KeyError]\<rparr>,
      (5, 15)) \<and>
   fst (process_event market (self_at 98) (5, 10) ''process_burn'' (burn 50 1 4)) = self_at 98"
proof -
  have rows: "process_rows market (self_at 0) (5, 0) [mint 98 1 2] = (self_at 98, (5, 10))"
    by (simp add: op_defs instance_defs)
  have address: "from_address (burn 99 1 4) \<noteq> INTEREST_RATE_MODEL_ADDRESS market"
    "from_address (burn 50 1 4) \<noteq> INTEREST_RATE_MODEL_ADDRESS market"
    by (simp_all add: instance_defs)
  have unmapped: "ADDRESSES_TO_EVENTS market (from_address (burn 99 1 4)) = None \<or>
     (\<exists>t. ADDRESSES_TO_EVENTS market (from_address (burn 99 1 4)) = Some t \<and>
          EVENTS_METHODS_MAPPING market (t, key_name (burn 99 1 4)) = None)"
    "ADDRESSES_TO_EVENTS market (from_address (burn 50 1 4)) = None \<or>
     (\<exists>t. ADDRESSES_TO_EVENTS market (from_address (burn 50 1 4)) = Some t \<and>
          EVENTS_METHODS_MAPPING market (t, key_name (burn 50 1 4)) = None)"
    by (simp_all add: instance_defs)
  show ?thesis
    using unmapped_event_skipped [OF address(1) unmapped(1) rows, of "''process_burn''"
        "[mint 100 1 1]"]
      unmapped_event_skipped [OF address(2) unmapped(2) rows, of "''process_burn''" "[]"] rows
    by (simp add: op_defs instance_defs)
qed

theorem unmapped_event_not_logged_counterexample:
  "ADDRESSES_TO_EVENTS market (from_address (burn 50 1 4)) = Some ''collateral'' \<and>
   EVENTS_METHODS_MAPPING market (''collateral'', key_name (burn 50 1 4)) = None \<and>
   process_event market (self_at 100) (5, 10) ''process_burn'' (burn 50 1 4) =
     (self_at 100, (5, 10)) \<and>
   logged (self_at 100) = []"
  by (simp add: op_defs instance_defs)

section \<open>The rows of a batch\<close>

lemma process_event_logged:
  "\<exists>l. logged (fst (process_event E c st m ev)) = logged c @ l"
  using interest_rate_event_logged [of E c st ev]
  by (auto simp: process_event_def log_exception_def split: prod.splits option.splits)

lemma process_rows_logged:
  "\<exists>l. logged (fst (process_rows E c st rows)) = logged c @ l"
proof (induction rows arbitrary: c st)
  case Nil
  then show ?case by simp
next
  case (Cons row rows)
  obtain c' st' where step: "process_event E c st (method_name_of E row) row = (c', st')"
    by (cases "process_event E c st (method_name_of E row) row")
  obtain l where "logged c' = logged c @ l"
    using process_event_logged [of E c st "method_name_of E row" row] step by auto
  moreover obtain l' where "logged (fst (process_rows E c' st' rows)) = logged c' @ l'"
    using Cons.IH by blast
  ultimately show ?case
    using step by simp
qed






text \<open>
  C5, as the code has it. \<open>process_event\<close> sends every record whose address is the
  one of the interest-rate model to the interest-rate fold, before the block test and
  the dispatch tables and instead of them: the result is the same for any other
  tables and operations, and for any \<^verbatim>\<open>method_name\<close>. But the records reach
  \<open>process_event\<close> through the filter of \<open>process_data\<close>, which looks at the event
  name alone: a record of the interest-rate model is among the rows exactly when its
  name is a key of \<^verbatim>\<open>EVENTS_MAPPING\<close> or \<open>InterestStateUpdated\<close>.
\<close>

theorem interest_rate_event_routed:
  assumes "from_address ev = INTEREST_RATE_MODEL_ADDRESS E"
  shows "(ev \<in> set (sorted_df E data) \<longleftrightarrow>
            ev \<in> set data \<and>
            (EVENTS_MAPPING E (key_name ev) \<noteq> None \<or> key_name ev = ''InterestStateUpdated'')) \<and>
         process_event E c st m ev =
           (case process_interest_rate_event E c st ev of
              (c', st', None) \<Rightarrow> (c', st')
            | (c', st', Some e) \<Rightarrow> (log_exception c' e, st')) \<and>
         process_event
           (E\<lparr>ADDRESSES_TO_EVENTS := a, EVENTS_METHODS_MAPPING := mm, getattr := g\<rparr>) c st m' ev =
           process_event E c st m ev"
proof -
  have "ev \<in> set (sorted_df E data) \<longleftrightarrow>
          ev \<in> set data \<and>
          (EVENTS_MAPPING E (key_name ev) \<noteq> None \<or> key_name ev = ''InterestStateUpdated'')"
    by (auto simp: sorted_df_def isin_events_with_interest_rate_def INTEREST_RATES_KEYS_def)
  moreover have "process_event
           (E\<lparr>ADDRESSES_TO_EVENTS := a, EVENTS_METHODS_MAPPING := mm, getattr := g\<rparr>) c st m' ev =
           process_event E c st m ev"
    using assms
    by (simp add: process_event_def process_interest_rate_event_def
             split: prod.splits option.splits)
  ultimately show ?thesis
    using process_event_irm [OF assms] by blast
qed

theorem interest_rate_event_routed_witness:
  "(rate_update 100 1 5)\<lparr>key_name := ''Mint''\<rparr>
     \<in> set (sorted_df market [mint 99 2 10, (rate_update 100 1 5)\<lparr>key_name := ''Mint''\<rparr>]) \<and>
   process_event market (self_at 0) (0, 0) ''process_mint''
     ((rate_update 100 1 5)\<lparr>key_name := ''Mint''\<rparr>) =
     (\<lparr>last_block = 0, interest_rate_result = [5], logged = []\<rparr>, (5, 0))"
proof -
  have address: "from_address ((rate_update 100 1 5)\<lparr>key_name := ''Mint''\<rparr>) =
      INTEREST_RATE_MODEL_ADDRESS market"
    by (simp add: instance_defs)
  show ?thesis
    using interest_rate_event_routed [OF address,
        of "[mint 99 2 10, (rate_update 100 1 5)\<lparr>key_name := ''Mint''\<rparr>]" "self_at 0" "(0, 0)"
           "''process_mint''"]
    by (simp add: process_interest_rate_event_def instance_defs)
qed

theorem interest_rate_event_filtered_counterexample:
  "from_address ((rate_update 100 1 5)\<lparr>key_name := ''Upgraded''\<rparr>) =
     INTEREST_RATE_MODEL_ADDRESS market \<and>
   sorted_df market [(rate_update 100 1 5)\<lparr>key_name := ''Upgraded''\<rparr>] = [] \<and>
   process_data market (self_at 0) [(rate_update 100 1 5)\<lparr>key_name := ''Upgraded''\<rparr>] =
     Inr (0, self_at 0) \<and>
   process_data market (self_at 0) [rate_update 100 1 5] =
     Inr (0, \<lparr>last_block = 0, interest_rate_result = [5], logged = []\<rparr>)"
  by (simp add: op_defs instance_defs)

text \<open>
  C1, as the code has it. The rows are processed in ascending order of
  (block number, id), rows without a block number last, whatever the address: the
  rows are the filtered batch, sorted by that key, and a row with a smaller key is
  never processed after one with a larger key. Rows with equal keys keep the order
  of the batch, in which the events of the interest-rate model come first; only
  there does the address decide.
\<close>

theorem rows_in_block_order:
  "sorted (map sort_values_key (sorted_df E data)) \<and>
   mset (sorted_df E data) = mset (filter (isin_events_with_interest_rate E) data) \<and>
   (\<forall>i j. i < length (sorted_df E data) \<and> j < length (sorted_df E data) \<and>
      sort_values_key (sorted_df E data ! i) < sort_values_key (sorted_df E data ! j)
        \<longrightarrow> i < j) \<and>
   (\<forall>k. filter (\<lambda>ev. sort_values_key ev = k) (sorted_df E data) =
      filter (\<lambda>ev. sort_values_key ev = k) (filter (isin_events_with_interest_rate E) data))"
proof -
  let ?rows = "sorted_df E data"
  have ordered: "sorted (map sort_values_key ?rows)"
    by (simp add: sorted_df_def)
  have "i < j" if "i < length ?rows" "j < length ?rows"
    "sort_values_key (?rows ! i) < sort_values_key (?rows ! j)" for i j
  proof (rule ccontr)
    assume "\<not> i < j"
    then have "j \<le> i" by simp
    then have "map sort_values_key ?rows ! j \<le> map sort_values_key ?rows ! i"
      using ordered that(1) by (simp add: sorted_iff_nth_mono del: nth_map)
    then show False
      using that by simp
  qed
  moreover have "mset ?rows = mset (filter (isin_events_with_interest_rate E) data)"
    by (simp add: sorted_df_def)
  moreover have "filter (\<lambda>ev. sort_values_key ev = k) ?rows =
      filter (\<lambda>ev. sort_values_key ev = k) (filter (isin_events_with_interest_rate E) data)" for k
    unfolding sorted_df_def by (rule sort_key_stable)
  ultimately show ?thesis
    using ordered by blast
qed

theorem rows_in_block_order_witness:
  "sorted_df market ([rate_update 100 1 5] @ [mint 99 2 10]) ! 0 = mint 99 2 10 \<and>
   sorted_df market ([rate_update 100 1 5] @ [mint 99 2 10]) ! 1 = rate_update 100 1 5 \<and>
   sort_values_key (mint 99 2 10) < sort_values_key (rate_update 100 1 5) \<and> (0::nat) < 1"
  using rows_in_block_order [of market "[rate_update 100 1 5] @ [mint 99 2 10]"]
  by (simp add: sorted_df_def isin_events_with_interest_rate_def sort_values_key_def instance_defs)

theorem rate_event_not_first_counterexample:
  "sorted_df market ([rate_update 100 1 5] @ [mint 99 2 10]) =
     [mint 99 2 10, rate_update 100 1 5] \<and>
   process_data market (self_at 0) ([rate_update 100 1 5] @ [mint 99 2 10]) =
     Inr (0, \<lparr>last_block = 99, interest_rate_result = [5], logged = []\<rparr>) \<and>
   process_rows market (self_at 0) (NostraAlphaState market) [rate_update 100 1 5, mint 99 2 10] =
     (\<lparr>last_block = 99, interest_rate_result = [5], logged = []\<rparr>, (5, 50))"
  by (simp add: op_defs instance_defs)

section \<open>The checkpoint across a batch and an iteration\<close>

lemma ordinary_blocks_Cons:
  "ordinary_blocks E (row # rows) =
     (if from_address row \<noteq> INTEREST_RATE_MODEL_ADDRESS E then
        (case block_number row of
           None \<Rightarrow> ordinary_blocks E rows
         | Some b \<Rightarrow> if b \<noteq> 0 then b # ordinary_blocks E rows else ordinary_blocks E rows)
      else ordinary_blocks E rows)"
  by (simp add: ordinary_blocks_def map_filter_simps split: option.splits)

lemma process_event_last_block:
  "last_block (fst (process_event E c st m row)) =
     fold max (ordinary_blocks E [row]) (last_block c)"
proof (cases "from_address row = INTEREST_RATE_MODEL_ADDRESS E")
  case True
  then show ?thesis
    by (simp add: process_event_irm_last_block ordinary_blocks_Cons ordinary_blocks_def
          map_filter_simps)
next
  case False
  then show ?thesis
    by (auto simp: process_event_def ordinary_blocks_Cons ordinary_blocks_def map_filter_simps
          log_exception_def split: option.splits prod.splits)
qed

lemma ordinary_blocks_single:
  "ordinary_blocks E (row # rows) = ordinary_blocks E [row] @ ordinary_blocks E rows"
  by (simp add: ordinary_blocks_def map_filter_simps split: option.splits)

lemma process_rows_last_block:
  "last_block (fst (process_rows E c st rows)) = fold max (ordinary_blocks E rows) (last_block c)"
proof (induction rows arbitrary: c st)
  case Nil
  then show ?case by (simp add: ordinary_blocks_def map_filter_simps)
next
  case (Cons row rows)
  obtain c' st' where step: "process_event E c st (method_name_of E row) row = (c', st')"
    by (cases "process_event E c st (method_name_of E row) row")
  then have "last_block c' = fold max (ordinary_blocks E [row]) (last_block c)"
    using process_event_last_block [of E c st "method_name_of E row" row] by simp
  then show ?case
    using step Cons.IH [of c' st'] ordinary_blocks_single [of E row rows] by simp
qed

lemma process_data_last_block:
  assumes "process_data E c data = Inr (df, c')"
  shows "last_block c' = Max (set (last_block c # ordinary_blocks E (sorted_df E data)))"
proof -
  have "c' = fst (process_rows E c (NostraAlphaState E) (sorted_df E data))"
    using assms by (auto simp: process_data_def split: if_splits prod.splits)
  then show ?thesis
    by (simp only: process_rows_last_block Max.set_eq_fold)
qed

lemma process_data_nonempty:
  "data \<noteq> [] \<Longrightarrow> \<exists>df c'. process_data E c data = Inr (df, c')"
  by (simp add: process_data_def split: prod.splits)

lemma save_last_block:
  "save E df c1 = Next retry' c' \<Longrightarrow> retry' = 0 \<and> last_block c' = last_block c1 + PAGINATION_SIZE E"
  "save E df c1 = Raise e c' \<Longrightarrow> last_block c' = last_block c1"
  "save E df c1 \<noteq> Break c'"
  by (auto simp: save_def update_last_block_def info_def split: option.splits prod.splits)

lemma loop_body_processing:
  assumes "last_block c < final_block" "get_data E n (last_block c) = Inr interest_rate_data"
    "get_addresses_data E n (last_block c) = Inr data" "data \<noteq> []"
    "process_data E c (interest_rate_data @ data) = Inr (df, c1)"
  shows "loop_body E final_block n retry c = save E df c1"
  using assms by (simp add: loop_body_def)

lemma loop_body_no_data:
  assumes "last_block c < final_block" "get_data E n (last_block c) = Inr interest_rate_data"
    "get_addresses_data E n (last_block c) = Inr []"
  shows "loop_body E final_block n retry c = Next (retry + 1) (no_data E c)"
  using assms by (simp add: loop_body_def)

lemma loop_body_Next:
  assumes "loop_body E final_block n retry c = Next retry' c'"
  shows "\<exists>interest_rate_data data.
           get_data E n (last_block c) = Inr interest_rate_data \<and>
           get_addresses_data E n (last_block c) = Inr data \<and>
           last_block c' =
             Max (set (last_block c #
                    (if data = [] then []
                     else ordinary_blocks E (sorted_df E (interest_rate_data @ data))))) +
             PAGINATION_SIZE E"
proof -
  have running: "last_block c < final_block"
    using assms by (auto simp: loop_body_def split: if_splits)
  obtain interest_rate_data where one: "get_data E n (last_block c) = Inr interest_rate_data"
    using assms running by (cases "get_data E n (last_block c)") (auto simp: loop_body_def)
  obtain data where two: "get_addresses_data E n (last_block c) = Inr data"
    using assms running one
    by (cases "get_addresses_data E n (last_block c)") (auto simp: loop_body_def)
  show ?thesis
  proof (cases "data = []")
    case True
    then have "c' = no_data E c"
      using assms loop_body_no_data [OF running one, of retry] two by simp
    then show ?thesis
      using one two True by (simp add: no_data_def info_def)
  next
    case False
    obtain df c1 where three: "process_data E c (interest_rate_data @ data) = Inr (df, c1)"
      using process_data_nonempty [of "interest_rate_data @ data" E c] False by auto
    have "save E df c1 = Next retry' c'"
      using assms loop_body_processing [OF running one two False three, of retry] by simp
    then have "last_block c' = last_block c1 + PAGINATION_SIZE E"
      by (simp add: save_last_block)
    then show ?thesis
      using one two False process_data_last_block [OF three] by simp
  qed
qed

lemma loop_body_Next_le:
  assumes "loop_body E final_block n retry c = Next retry' c'"
  shows "last_block c + PAGINATION_SIZE E \<le> last_block c'"
proof -
  obtain bs where "last_block c' = Max (set (last_block c # bs)) + PAGINATION_SIZE E"
    using loop_body_Next [OF assms] by blast
  moreover have "last_block c \<le> Max (set (last_block c # bs))"
    by (rule Max_ge) simp_all
  ultimately show ?thesis by simp
qed

lemma loop_body_Break:
  "loop_body E final_block n retry c = Break c' \<Longrightarrow> last_block c' = last_block c"
  by (auto simp: loop_body_def save_def info_def split: if_splits sum.splits prod.splits option.splits)

lemma loop_body_Raise:
  assumes "loop_body E final_block n retry c = Raise e c'"
  shows "last_block c \<le> last_block c'"
proof -
  have running: "last_block c < final_block"
    using assms by (auto simp: loop_body_def split: if_splits)
  show ?thesis
  proof (cases "\<exists>interest_rate_data data. get_data E n (last_block c) = Inr interest_rate_data \<and>
      get_addresses_data E n (last_block c) = Inr data \<and> data \<noteq> []")
    case True
    then obtain interest_rate_data data where fetched:
      "get_data E n (last_block c) = Inr interest_rate_data"
      "get_addresses_data E n (last_block c) = Inr data" "data \<noteq> []"
      by blast
    obtain df c1 where three: "process_data E c (interest_rate_data @ data) = Inr (df, c1)"
      using process_data_nonempty [of "interest_rate_data @ data" E c] fetched(3) by auto
    have "save E df c1 = Raise e c'"
      using assms loop_body_processing [OF running fetched three, of retry] by simp
    then have "last_block c' = Max (set (last_block c #
        ordinary_blocks E (sorted_df E (interest_rate_data @ data))))"
      using process_data_last_block [OF three] by (simp add: save_last_block)
    moreover have "last_block c \<le> Max (set (last_block c #
        ordinary_blocks E (sorted_df E (interest_rate_data @ data))))"
      by (rule Max_ge) simp_all
    ultimately show ?thesis by simp
  next
    case False
    then have "c' = c"
      using assms running
      by (auto simp: loop_body_def split: sum.splits if_splits)
    then show ?thesis by simp
  qed
qed

lemma while_loop_checkpoint:
  "while_loop E max_retries final_block fuel n retry c = Some res \<Longrightarrow>
   n \<le> iterations res \<and>
   last_block c + int (iterations res - n) * PAGINATION_SIZE E \<le> checkpoint res"
proof (induction fuel arbitrary: n retry c)
  case 0
  then show ?case by simp
next
  case (Suc fuel)
  show ?case
  proof (cases "retry < max_retries")
    case False
    then show ?thesis using Suc.prems by auto
  next
    case True
    show ?thesis
    proof (cases "loop_body E final_block n retry c")
      case (Break c')
      then show ?thesis
        using Suc.prems True loop_body_Break [OF Break] by auto
    next
      case (Raise e c')
      then show ?thesis
        using Suc.prems True loop_body_Raise [OF Raise] by auto
    next
      case (Next retry' c')
      then have rest: "while_loop E max_retries final_block fuel (Suc n) retry' c' = Some res"
        using Suc.prems True by simp
      have later: "Suc n \<le> iterations res"
        and bound: "last_block c' + int (iterations res - Suc n) * PAGINATION_SIZE E
          \<le> checkpoint res"
        using Suc.IH [OF rest] by blast+
      have "int (iterations res - n) = int (iterations res - Suc n) + 1"
        using later by simp
      then have "last_block c + int (iterations res - n) * PAGINATION_SIZE E =
          last_block c + PAGINATION_SIZE E + int (iterations res - Suc n) * PAGINATION_SIZE E"
        by (simp add: algebra_simps)
      then show ?thesis
        using later bound loop_body_Next_le [OF Next] by simp
    qed
  qed
qed

text \<open>
  C2, as the code has it. An iteration whose body runs to its end, with or without
  data, moves the checkpoint to the page size above the highest of: the checkpoint
  at the start of the iteration, and the block numbers of the ordinary rows of the
  batch, which \<open>process_event\<close> writes to \<^verbatim>\<open>self.last_block\<close>. So the checkpoint grows
  by at least the page size, by exactly the page size when no such block number is
  above the checkpoint, and strictly when the page size is positive. Over a run of
  the loop, the checkpoint is at least the first one plus the page size times the
  number of iterations that ran to their end.
\<close>

theorem checkpoint_advance:
  "(loop_body E final_block n retry c = Next retry' c' \<longrightarrow>
      (\<exists>interest_rate_data data.
         get_data E n (last_block c) = Inr interest_rate_data \<and>
         get_addresses_data E n (last_block c) = Inr data \<and>
         last_block c' =
           Max (set (last_block c #
                  (if data = [] then []
                   else ordinary_blocks E (sorted_df E (interest_rate_data @ data))))) +
           PAGINATION_SIZE E \<and>
         (last_block c' = last_block c + PAGINATION_SIZE E \<longleftrightarrow>
            data = [] \<or>
            (\<forall>b \<in> set (ordinary_blocks E (sorted_df E (interest_rate_data @ data))).
               b \<le> last_block c))) \<and>
      last_block c + PAGINATION_SIZE E \<le> last_block c' \<and>
      (0 < PAGINATION_SIZE E \<longrightarrow> last_block c < last_block c')) \<and>
   (while_loop E max_retries final_block fuel n retry c = Some res \<longrightarrow>
      n \<le> iterations res \<and>
      last_block c + int (iterations res - n) * PAGINATION_SIZE E \<le> checkpoint res)"
proof -
  have one: "\<exists>interest_rate_data data.
         get_data E n (last_block c) = Inr interest_rate_data \<and>
         get_addresses_data E n (last_block c) = Inr data \<and>
         last_block c' =
           Max (set (last_block c #
                  (if data = [] then []
                   else ordinary_blocks E (sorted_df E (interest_rate_data @ data))))) +
           PAGINATION_SIZE E \<and>
         (last_block c' = last_block c + PAGINATION_SIZE E \<longleftrightarrow>
            data = [] \<or>
            (\<forall>b \<in> set (ordinary_blocks E (sorted_df E (interest_rate_data @ data))).
               b \<le> last_block c))"
    if step: "loop_body E final_block n retry c = Next retry' c'"
  proof -
    obtain interest_rate_data data where fetched:
      "get_data E n (last_block c) = Inr interest_rate_data"
      "get_addresses_data E n (last_block c) = Inr data"
      and moved: "last_block c' =
           Max (set (last_block c #
                  (if data = [] then []
                   else ordinary_blocks E (sorted_df E (interest_rate_data @ data))))) +
           PAGINATION_SIZE E"
      using loop_body_Next [OF step] by blast
    let ?bs = "ordinary_blocks E (sorted_df E (interest_rate_data @ data))"
    have "Max (set (last_block c # ?bs)) = last_block c \<longleftrightarrow> (\<forall>b \<in> set ?bs. b \<le> last_block c)"
    proof
      assume eq: "Max (set (last_block c # ?bs)) = last_block c"
      show "\<forall>b \<in> set ?bs. b \<le> last_block c"
      proof
        fix b assume "b \<in> set ?bs"
        then have "b \<le> Max (set (last_block c # ?bs))"
          by (intro Max_ge) simp_all
        then show "b \<le> last_block c" using eq by simp
      qed
    next
      assume "\<forall>b \<in> set ?bs. b \<le> last_block c"
      then show "Max (set (last_block c # ?bs)) = last_block c"
        by (intro Max_eqI) auto
    qed
    then have "last_block c' = last_block c + PAGINATION_SIZE E \<longleftrightarrow>
        data = [] \<or> (\<forall>b \<in> set ?bs. b \<le> last_block c)"
      using moved by (cases "data = []") simp_all
    then show ?thesis
      using fetched moved by blast
  qed
  have two: "last_block c + PAGINATION_SIZE E \<le> last_block c'"
    if "loop_body E final_block n retry c = Next retry' c'"
    using loop_body_Next_le [OF that] .
  then have three: "0 < PAGINATION_SIZE E \<longrightarrow> last_block c < last_block c'"
    if "loop_body E final_block n retry c = Next retry' c'"
    using that by fastforce
  show ?thesis
    using one two three while_loop_checkpoint [of E max_retries final_block fuel n retry c res]
    by blast
qed

theorem checkpoint_advance_witness:
  "loop_body (fetching [] [mint 10900 1 10]) 647952 0 0 (self_at 10854) =
     Next 0 \<lparr>last_block = 11900, interest_rate_result = [],
              logged = [Processed_data_up_to_block 11900]\<rparr> \<and>
   10854 + PAGINATION_SIZE (fetching [] [mint 10900 1 10]) \<le> (11900 :: int) \<and>
   loop_body (fetching [] [mint 10800 1 10]) 647952 0 0 (self_at 10854) =
     Next 0 \<lparr>last_block = 11854, interest_rate_result = [],
              logged = [Processed_data_up_to_block 11854]\<rparr> \<and>
   while_loop market 1000000 10860 (Suc (Suc 0)) 0 0 (self_at 10854) =
     Some (Returned True 1 1 \<lparr>last_block = 11854, interest_rate_result = [],
             logged = [No_data_for_block 10854, Reached_the_last_block 11854]\<rparr>) \<and>
   10854 + int (1 - 0) * PAGINATION_SIZE market \<le> 11854"
proof -
  have one: "loop_body (fetching [] [mint 10900 1 10]) 647952 0 0 (self_at 10854) =
     Next 0 \<lparr>last_block = 11900, interest_rate_result = [],
              logged = [Processed_data_up_to_block 11900]\<rparr>"
    by (simp add: op_defs instance_defs)
  have two: "loop_body (fetching [] [mint 10800 1 10]) 647952 0 0 (self_at 10854) =
     Next 0 \<lparr>last_block = 11854, interest_rate_result = [],
              logged = [Processed_data_up_to_block 11854]\<rparr>"
    by (simp add: op_defs instance_defs)
  have three: "while_loop market 1000000 10860 (Suc (Suc 0)) 0 0 (self_at 10854) =
     Some (Returned True 1 1 \<lparr>last_block = 11854, interest_rate_result = [],
             logged = [No_data_for_block 10854, Reached_the_last_block 11854]\<rparr>)"
    by (simp add: op_defs instance_defs)
  show ?thesis
    using checkpoint_advance [of "fetching [] [mint 10900 1 10]" 647952 0 0 "self_at 10854" 0
        "\<lparr>last_block = 11900, interest_rate_result = [],
              logged = [Processed_data_up_to_block 11900]\<rparr>"]
      checkpoint_advance [of market 10860 0 0 "self_at 10854" _ _ 1000000 "Suc (Suc 0)"
        "Returned True 1 1 \<lparr>last_block = 11854, interest_rate_result = [],
             logged = [No_data_for_block 10854, Reached_the_last_block 11854]\<rparr>"]
      one two three
    by (simp add: instance_defs)
qed

theorem checkpoint_advance_counterexample:
  "loop_body (fetching [] [mint 10900 1 10]) 647952 0 0 (self_at 10854) =
     Next 0 \<lparr>last_block = 11900, interest_rate_result = [],
              logged = [Processed_data_up_to_block 11900]\<rparr> \<and>
   PAGINATION_SIZE (fetching [] [mint 10900 1 10]) = 1000 \<and>
   (11900 :: int) \<noteq> 10854 + 1 * 1000 \<and>
   run (market\<lparr>get_addresses_data :=
           \<lambda>n b. if n = 0 then Inr [mint 10900 1 10] else Inl (Error ''unavailable'')\<rparr>)
       (Suc (Suc 0)) (self_at 0) =
     Some (Raised (Error ''unavailable'') 1
        \<lparr>last_block = 11900, interest_rate_result = [],
           logged = [Default_last_block 10854, Processed_data_up_to_block 11900]\<rparr>)"
  by (simp add: run_def run_from_def after_loop_def op_defs instance_defs)

text \<open>
  C3, as the code has it. With both fetches answered, the path without processing
  (checkpoint advanced by the page size, \<^verbatim>\<open>retry\<close> incremented, history untouched) is
  taken exactly when the fetch of the ordinary events is empty, whatever the fetch
  of the interest-rate model returned; when the ordinary fetch has events, the two
  lists concatenated are processed and the result is saved.
\<close>

theorem no_data_path:
  assumes "last_block c < final_block"
    and "get_data E n (last_block c) = Inr interest_rate_data"
    and "get_addresses_data E n (last_block c) = Inr data"
  shows "(data = [] \<longrightarrow>
            loop_body E final_block n retry c = Next (retry + 1) (no_data E c) \<and>
            last_block (no_data E c) = last_block c + PAGINATION_SIZE E \<and>
            interest_rate_result (no_data E c) = interest_rate_result c) \<and>
         (data \<noteq> [] \<longrightarrow>
            (\<exists>df c'. process_data E c (interest_rate_data @ data) = Inr (df, c') \<and>
               loop_body E final_block n retry c = save E df c')) \<and>
         (0 \<le> retry \<longrightarrow>
            (loop_body E final_block n retry c = Next (retry + 1) (no_data E c) \<longleftrightarrow> data = []))"
proof -
  have empty: "loop_body E final_block n retry c = Next (retry + 1) (no_data E c)" if "data = []"
    using loop_body_no_data [OF assms(1,2), of retry] assms(3) that by simp
  have fields: "last_block (no_data E c) = last_block c + PAGINATION_SIZE E \<and>
      interest_rate_result (no_data E c) = interest_rate_result c"
    by (simp add: no_data_def info_def)
  have processed: "\<exists>df c'. process_data E c (interest_rate_data @ data) = Inr (df, c') \<and>
      loop_body E final_block n retry c = save E df c'" if nonempty: "data \<noteq> []"
  proof -
    obtain df c' where "process_data E c (interest_rate_data @ data) = Inr (df, c')"
      using process_data_nonempty [of "interest_rate_data @ data" E c] nonempty by auto
    then show ?thesis
      using loop_body_processing [OF assms nonempty, of df c' retry] by blast
  qed
  have "loop_body E final_block n retry c \<noteq> Next (retry + 1) (no_data E c)"
    if nonempty: "data \<noteq> []" and nonneg: "0 \<le> retry"
  proof
    assume eq: "loop_body E final_block n retry c = Next (retry + 1) (no_data E c)"
    obtain df c' where "loop_body E final_block n retry c = save E df c'"
      using processed [OF nonempty] by blast
    then have "retry + 1 = 0"
      using eq save_last_block(1) [of E df c' "retry + 1" "no_data E c"] by simp
    then show False using nonneg by simp
  qed
  then show ?thesis
    using empty fields processed by blast
qed

theorem no_data_path_witness:
  "loop_body (fetching [rate_update 10900 1 5] [mint 10901 1 10]) 647952 0 0 (self_at 10854) =
     save (fetching [rate_update 10900 1 5] [mint 10901 1 10]) 50
       \<lparr>last_block = 10901, interest_rate_result = [5], logged = []\<rparr> \<and>
   loop_body market 647952 0 0 (self_at 10854) = Next 1 (no_data market (self_at 10854))"
proof -
  have running: "last_block (self_at 10854) < 647952"
    by (simp add: instance_defs)
  have one: "get_data (fetching [rate_update 10900 1 5] [mint 10901 1 10]) 0
      (last_block (self_at 10854)) = Inr [rate_update 10900 1 5]"
    and two: "get_addresses_data (fetching [rate_update 10900 1 5] [mint 10901 1 10]) 0
      (last_block (self_at 10854)) = Inr [mint 10901 1 10]"
    by (simp_all add: instance_defs)
  have none: "get_data market 0 (last_block (self_at 10854)) = Inr []"
    "get_addresses_data market 0 (last_block (self_at 10854)) = Inr []"
    by (simp_all add: instance_defs)
  have "process_data (fetching [rate_update 10900 1 5] [mint 10901 1 10]) (self_at 10854)
      ([rate_update 10900 1 5] @ [mint 10901 1 10]) =
      Inr (50, \<lparr>last_block = 10901, interest_rate_result = [5], logged = []\<rparr>)"
    by (simp add: op_defs instance_defs)
  then show ?thesis
    using no_data_path [OF running one two, of 0] no_data_path [OF running none, of 0]
    by simp
qed

theorem no_data_path_counterexample:
  "[rate_update 10900 1 5] @ [] \<noteq> ([] :: int event list) \<and>
   loop_body (fetching [rate_update 10900 1 5] []) 647952 0 0 (self_at 10854) =
     Next 1 \<lparr>last_block = 11854, interest_rate_result = [],
              logged = [No_data_for_block 10854]\<rparr>"
  by (simp add: op_defs instance_defs)

text \<open>
  C4, as the code has it. When a save raises for a batch, the exception leaves the
  loop, and the page size is not added to the checkpoint. The checkpoint field is
  nevertheless the one that processing the batch left: the highest of the
  checkpoint before the batch and the block numbers, other than 0, of the rows that
  are not from the interest-rate model, the rows being the events of the batch
  whose name passed the filter of \<open>process_data\<close>. It is never below the checkpoint
  before the batch and can be above it.
\<close>

theorem save_failure:
  assumes "retry < max_retries" and "last_block c < final_block"
    and "get_data E n (last_block c) = Inr interest_rate_data"
    and "get_addresses_data E n (last_block c) = Inr data" and "data \<noteq> []"
    and "process_data E c (interest_rate_data @ data) = Inr (df, c1)"
    and "save_data E df = Some e \<or>
         (save_data E df = None \<and>
          (\<exists>r. save_interest_rate_data E (interest_rate_result c1) = (r, Some e)))"
  shows "\<exists>c'. loop_body E final_block n retry c = Raise e c' \<and>
           while_loop E max_retries final_block (Suc fuel) n retry c = Some (Raised e n c') \<and>
           last_block c' =
             Max (set (last_block c # ordinary_blocks E (sorted_df E (interest_rate_data @ data)))) \<and>
           last_block c \<le> last_block c'"
proof -
  have body: "loop_body E final_block n retry c = save E df c1"
    using loop_body_processing [OF assms(2-6)] .
  obtain c' where raised: "save E df c1 = Raise e c'"
    using assms(7) by (auto simp: save_def)
  then have same: "last_block c' = last_block c1"
    by (simp add: save_last_block)
  have "loop_body E final_block n retry c = Raise e c'"
    using body raised by simp
  moreover from this have "while_loop E max_retries final_block (Suc fuel) n retry c =
      Some (Raised e n c')"
    using assms(1) by simp
  moreover have "last_block c' =
      Max (set (last_block c # ordinary_blocks E (sorted_df E (interest_rate_data @ data))))"
    using same process_data_last_block [OF assms(6)] by simp
  moreover from this have "last_block c \<le> last_block c'"
    by (simp only:) (rule Max_ge, simp_all)
  ultimately show ?thesis by blast
qed

theorem save_failure_witness:
  "while_loop ((fetching [] [mint 10800 1 10])\<lparr>save_data := \<lambda>d. Some (Error ''database'')\<rparr>)
     1000000 647952 (Suc 0) 0 0 (self_at 10854) =
     Some (Raised (Error ''database'') 0 (self_at 10854))"
proof -
  let ?E = "(fetching [] [mint 10800 1 10])\<lparr>save_data := \<lambda>d. Some (Error ''database'')\<rparr>"
  have "(0::int) < 1000000" and "last_block (self_at 10854) < 647952"
    and "get_data ?E 0 (last_block (self_at 10854)) = Inr []"
    and "get_addresses_data ?E 0 (last_block (self_at 10854)) = Inr [mint 10800 1 10]"
    and "[mint 10800 1 10] \<noteq> []"
    and "process_data ?E (self_at 10854) ([] @ [mint 10800 1 10]) = Inr (0, self_at 10854)"
    and "save_data ?E 0 = Some (Error ''database'') \<or>
         (save_data ?E 0 = None \<and>
          (\<exists>r. save_interest_rate_data ?E (interest_rate_result (self_at 10854)) =
             (r, Some (Error ''database''))))"
    by (simp_all add: op_defs instance_defs)
  from save_failure [OF this, of 0] show ?thesis
    by (simp add: op_defs instance_defs)
qed

theorem save_failure_counterexample:
  "loop_body ((fetching [] [mint 10900 1 10])\<lparr>save_data := \<lambda>d. Some (Error ''database'')\<rparr>)
     647952 0 0 (self_at 10854) =
     Raise (Error ''database'') (self_at 10900) \<and>
   last_block (self_at 10900) \<noteq> last_block (self_at 10854) \<and>
   run ((fetching [] [mint 10900 1 10])\<lparr>save_data := \<lambda>d. Some (Error ''database'')\<rparr>)
     (Suc 0) (self_at 0) =
     Some (Raised (Error ''database'') 0
        \<lparr>last_block = 10900, interest_rate_result = [], logged = [Default_last_block 10854]\<rparr>)"
  by (simp add: run_def run_from_def after_loop_def op_defs instance_defs)

lemma process_rows_last_block_le:
  "last_block c \<le> last_block (fst (process_rows E c st rows))"
proof -
  have "last_block c \<le> Max (set (last_block c # ordinary_blocks E rows))"
    by (rule Max_ge) simp_all
  then show ?thesis
    by (simp only: process_rows_last_block Max.set_eq_fold)
qed

text \<open>
  C7, as the code has it. A batch in which the fold of one record raises, be it a
  record of the interest-rate model or an ordinary record that passed the block
  test: the exception is caught in \<open>process_event\<close> and logged, and the rows after the
  record are processed. They are processed from what the failed call left, not from
  the state before the record: an ordinary record has written its block number to
  the checkpoint before its dispatch, and the checkpoint of the batch is at least
  that; the ledger is the one the operation left when it raised, for a record of
  the interest-rate model the folded ledger, also when it is the history that
  raises. When the batch is the one fetched in an iteration and the two saves
  succeed, the iteration ends normally with \<^verbatim>\<open>retry\<close> reset and the checkpoint
  advanced by the page size.
\<close>

theorem failing_record_caught:
  assumes raises:
      "(from_address ev = INTEREST_RATE_MODEL_ADDRESS E \<and>
        process_interest_rate_event E c1 s1 ev = (c1', s1', Some e)) \<or>
       (from_address ev \<noteq> INTEREST_RATE_MODEL_ADDRESS E \<and>
        (\<exists>b. block_number ev = Some b \<and> b \<noteq> 0 \<and> last_block c1 \<le> b \<and>
             c1' = c1\<lparr>last_block := b\<rparr>) \<and>
        dispatch E s1 ev = (s1', Some e))"
    and before: "process_rows E c st pre = (c1, s1)"
    and after: "process_rows E (log_exception c1' e) s1' post = (c2, s2)"
  shows "process_event E c1 s1 m ev = (log_exception c1' e, s1') \<and>
         process_rows E c st (pre @ ev # post) = (c2, s2) \<and>
         Failed_to_process_event e \<in> set (logged c2) \<and>
         (from_address ev \<noteq> INTEREST_RATE_MODEL_ADDRESS E \<longrightarrow>
            block_number ev = Some (last_block c1') \<and> last_block c1' \<le> last_block c2 \<and>
            s1' = fst (dispatch E s1 ev)) \<and>
         (from_address ev = INTEREST_RATE_MODEL_ADDRESS E \<longrightarrow>
            s1' = fst (process_interest_rate_model_event E s1 ev)) \<and>
         (last_block c < final_block \<and>
          get_data E n (last_block c) = Inr interest_rate_data \<and>
          get_addresses_data E n (last_block c) = Inr data \<and> data \<noteq> [] \<and>
          sorted_df E (interest_rate_data @ data) = pre @ ev # post \<and>
          st = NostraAlphaState E \<and>
          save_data E (get_result_df E (loan_entities E s2)) = None \<and>
          save_interest_rate_data E (interest_rate_result c2) = (r, None) \<longrightarrow>
            loop_body E final_block n retry c =
              Next 0 (update_last_block E (c2\<lparr>interest_rate_result := r\<rparr>)) \<and>
            last_block (update_last_block E (c2\<lparr>interest_rate_result := r\<rparr>)) =
              last_block c2 + PAGINATION_SIZE E)"
proof -
  have caught: "process_event E c1 s1 m ev = (log_exception c1' e, s1')"
    using raises by (auto simp: process_event_def)
  then have "process_rows E c1 s1 (ev # post) = (c2, s2)"
    using after process_rows_Cons [of E c1 s1 m ev "log_exception c1' e" s1' post] by simp
  then have batch: "process_rows E c st (pre @ ev # post) = (c2, s2)"
    using before by (simp add: process_rows_append)
  obtain l where "logged c2 = logged (log_exception c1' e) @ l"
    using process_rows_logged [of E "log_exception c1' e" s1' post] after by auto
  then have line: "Failed_to_process_event e \<in> set (logged c2)"
    by (simp add: log_exception_def)
  have "last_block (log_exception c1' e) \<le> last_block c2"
    using process_rows_last_block_le [of "log_exception c1' e" E s1' post] after by simp
  then have kept: "last_block c1' \<le> last_block c2"
    by (simp add: log_exception_def)
  have ordinary: "block_number ev = Some (last_block c1') \<and> last_block c1' \<le> last_block c2 \<and>
      s1' = fst (dispatch E s1 ev)"
    if "from_address ev \<noteq> INTEREST_RATE_MODEL_ADDRESS E"
    using raises that kept by auto
  have rate: "s1' = fst (process_interest_rate_model_event E s1 ev)"
    if "from_address ev = INTEREST_RATE_MODEL_ADDRESS E"
    using raises that interest_rate_event_ledger [of E c1 s1 ev] by auto
  have advanced: "loop_body E final_block n retry c =
        Next 0 (update_last_block E (c2\<lparr>interest_rate_result := r\<rparr>)) \<and>
      last_block (update_last_block E (c2\<lparr>interest_rate_result := r\<rparr>)) =
        last_block c2 + PAGINATION_SIZE E"
    if fetched: "last_block c < final_block"
      "get_data E n (last_block c) = Inr interest_rate_data"
      "get_addresses_data E n (last_block c) = Inr data" "data \<noteq> []"
      and rows: "sorted_df E (interest_rate_data @ data) = pre @ ev # post"
      and new: "st = NostraAlphaState E"
      and saved: "save_data E (get_result_df E (loan_entities E s2)) = None"
      "save_interest_rate_data E (interest_rate_result c2) = (r, None)"
  proof -
    have "process_data E c (interest_rate_data @ data) =
        Inr (get_result_df E (loan_entities E s2), c2)"
      using fetched(4) batch rows new by (simp add: process_data_def)
    then have "loop_body E final_block n retry c =
        Next 0 (update_last_block E (c2\<lparr>interest_rate_result := r\<rparr>))"
      using fetched saved by (simp add: loop_body_def save_def)
    then show ?thesis
      by (simp add: update_last_block_def info_def)
  qed
  show ?thesis
    using caught batch line ordinary rate advanced by (intro conjI impI) auto
qed

theorem failing_record_caught_witness:
  "process_rows (fetching [rate_update 10899 1 5] [mint 10900 1 2, mint 10901 1 (- 3), mint 10902 1 4])
     (self_at 10854) (0, 0)
     ([rate_update 10899 1 5, mint 10900 1 2] @ mint 10901 1 (- 3) # [mint 10902 1 4]) =
     (\<lparr>last_block = 10902, interest_rate_result = [5],
        logged = [Failed_to_process_event (Error ''negative amount'')]\<rparr>, (5, 30)) \<and>
   block_number (mint 10901 1 (- 3)) = Some 10901 \<and>
   loop_body (fetching [rate_update 10899 1 5] [mint 10900 1 2, mint 10901 1 (- 3), mint 10902 1 4])
     647952 0 0 (self_at 10854) =
     Next 0 \<lparr>last_block = 11902, interest_rate_result = [],
        logged = [Failed_to_process_event (Error ''negative amount''),
                  Processed_data_up_to_block 11902]\<rparr>"
proof -
  let ?E = "fetching [rate_update 10899 1 5] [mint 10900 1 2, mint 10901 1 (- 3), mint 10902 1 4]"
  let ?c1 = "\<lparr>last_block = 10900, interest_rate_result = [5], logged = []\<rparr>
    :: int list computation"
  let ?c1' = "\<lparr>last_block = 10901, interest_rate_result = [5], logged = []\<rparr>
    :: int list computation"
  let ?c2 = "\<lparr>last_block = 10902, interest_rate_result = [5],
        logged = [Failed_to_process_event (Error ''negative amount'')]\<rparr>
    :: int list computation"
  have raises:
      "(from_address (mint 10901 1 (- 3)) = INTEREST_RATE_MODEL_ADDRESS ?E \<and>
        process_interest_rate_event ?E ?c1 (5, 10) (mint 10901 1 (- 3)) =
          (?c1', (5, 10), Some (Error ''negative amount''))) \<or>
       (from_address (mint 10901 1 (- 3)) \<noteq> INTEREST_RATE_MODEL_ADDRESS ?E \<and>
        (\<exists>b. block_number (mint 10901 1 (- 3)) = Some b \<and> b \<noteq> 0 \<and> last_block ?c1 \<le> b \<and>
             ?c1' = ?c1\<lparr>last_block := b\<rparr>) \<and>
        dispatch ?E (5, 10) (mint 10901 1 (- 3)) = ((5, 10), Some (Error ''negative amount'')))"
    by (simp add: dispatch_def instance_defs)
  have before: "process_rows ?E (self_at 10854) (0, 0)
      [rate_update 10899 1 5, mint 10900 1 2] = (?c1, (5, 10))"
    by (simp add: op_defs instance_defs)
  have after: "process_rows ?E (log_exception ?c1' (Error ''negative amount'')) (5, 10)
      [mint 10902 1 4] = (?c2, (5, 30))"
    by (simp add: op_defs instance_defs)
  have fetched: "last_block (self_at 10854) < 647952 \<and>
      get_data ?E 0 (last_block (self_at 10854)) = Inr [rate_update 10899 1 5] \<and>
      get_addresses_data ?E 0 (last_block (self_at 10854)) =
         Inr [mint 10900 1 2, mint 10901 1 (- 3), mint 10902 1 4] \<and>
      [mint 10900 1 2, mint 10901 1 (- 3), mint 10902 1 4] \<noteq> [] \<and>
      sorted_df ?E ([rate_update 10899 1 5] @
        [mint 10900 1 2, mint 10901 1 (- 3), mint 10902 1 4]) =
      [rate_update 10899 1 5, mint 10900 1 2] @ mint 10901 1 (- 3) # [mint 10902 1 4] \<and>
      (0, 0) = NostraAlphaState ?E \<and>
      save_data ?E (get_result_df ?E (loan_entities ?E (5, 30))) = None \<and>
      save_interest_rate_data ?E (interest_rate_result ?c2) = ([], None)"
    by (simp add: sorted_df_def isin_events_with_interest_rate_def sort_values_key_def
          instance_defs)
  have address: "from_address (mint 10901 1 (- 3)) \<noteq> INTEREST_RATE_MODEL_ADDRESS ?E"
    by (simp add: instance_defs)
  note use = failing_record_caught [OF raises before after, of "''process_mint''" 647952 0
      "[rate_update 10899 1 5]" "[mint 10900 1 2, mint 10901 1 (- 3), mint 10902 1 4]" "[]" 0]
  have "block_number (mint 10901 1 (- 3)) = Some (last_block ?c1')"
    using use address by simp
  moreover have "process_rows ?E (self_at 10854) (0, 0)
      ([rate_update 10899 1 5, mint 10900 1 2] @ mint 10901 1 (- 3) # [mint 10902 1 4]) =
      (?c2, (5, 30))"
    using use by simp
  moreover have "loop_body ?E 647952 0 0 (self_at 10854) =
      Next 0 (update_last_block ?E (?c2\<lparr>interest_rate_result := []\<rparr>))"
    using use fetched by simp
  ultimately show ?thesis
    by (simp add: update_last_block_def info_def instance_defs)
qed

theorem failing_record_effect_counterexample:
  "loop_body (fetching [] [mint 10900 1 2, mint 11800 1 (- 3)]) 647952 0 0 (self_at 10854) =
     Next 0 \<lparr>last_block = 12800, interest_rate_result = [],
        logged = [Failed_to_process_event (Error ''negative amount''),
                  Processed_data_up_to_block 12800]\<rparr> \<and>
   loop_body (fetching [] [mint 10900 1 2]) 647952 0 0 (self_at 10854) =
     Next 0 \<lparr>last_block = 11900, interest_rate_result = [],
        logged = [Processed_data_up_to_block 11900]\<rparr> \<and>
   process_event (market\<lparr>add_interest_rate_data := \<lambda>r st ev. (r, Some (Error ''history''))\<rparr>)
       (self_at 0) (0, 0) '''' (rate_update 100 1 5) =
     (\<lparr>last_block = 0, interest_rate_result = [],
         logged = [Failed_to_process_event (Error ''history'')]\<rparr>, (5, 0)) \<and>
   loop_body ((fetching [] [mint 10900 1 2, mint 11800 1 (- 3)])
                \<lparr>save_data := \<lambda>d. Some (Error ''database'')\<rparr>) 647952 0 0 (self_at 10854) =
     Raise (Error ''database'')
       \<lparr>last_block = 11800, interest_rate_result = [],
          logged = [Failed_to_process_event (Error ''negative amount'')]\<rparr>"
  by (simp add: op_defs instance_defs)

section \<open>Iterations without data\<close>

lemma no_data_last_block:
  "last_block (no_data E c) = last_block c + PAGINATION_SIZE E"
  by (simp add: no_data_def info_def)

lemma no_data_funpow:
  "last_block ((no_data E ^^ k) c) = last_block c + int k * PAGINATION_SIZE E"
  by (induction k) (simp_all add: no_data_last_block algebra_simps)

lemma while_loop_no_data:
  assumes "\<forall>n b. \<exists>x. get_data E n b = Inr x" and "\<forall>n b. get_addresses_data E n b = Inr []"
  shows "(\<forall>j<k. last_block c + int j * PAGINATION_SIZE E < final_block) \<Longrightarrow>
         retry + int k \<le> max_retries \<Longrightarrow>
         while_loop E max_retries final_block (k + fuel) n retry c =
           while_loop E max_retries final_block fuel (n + k) (retry + int k) ((no_data E ^^ k) c)"
proof (induction k arbitrary: n retry c)
  case 0
  then show ?case by simp
next
  case (Suc k)
  have running: "last_block c < final_block"
    using Suc.prems(1) by fastforce
  obtain x where "get_data E n (last_block c) = Inr x"
    using assms(1) by blast
  then have body: "loop_body E final_block n retry c = Next (retry + 1) (no_data E c)"
    using loop_body_no_data [OF running, of E n x retry] assms(2) by simp
  have "last_block (no_data E c) + int j * PAGINATION_SIZE E < final_block" if "j < k" for j
  proof -
    have "last_block c + int (Suc j) * PAGINATION_SIZE E < final_block"
      using Suc.prems(1) that by (meson Suc_less_eq)
    then show ?thesis
      by (simp add: no_data_last_block algebra_simps)
  qed
  then have "while_loop E max_retries final_block (k + fuel) (Suc n) (retry + 1) (no_data E c) =
      while_loop E max_retries final_block fuel (Suc n + k) (retry + 1 + int k)
        ((no_data E ^^ k) (no_data E c))"
    using Suc.IH [of "no_data E c" "retry + 1" "Suc n"] Suc.prems(2) by simp
  moreover have "while_loop E max_retries final_block (Suc k + fuel) n retry c =
      while_loop E max_retries final_block (k + fuel) (Suc n) (retry + 1) (no_data E c)"
    using body Suc.prems(2) by simp
  ultimately show ?case
    by (simp add: funpow_swap1 add.assoc)
qed

lemma run_from_no_data_done:
  assumes "\<forall>n b. \<exists>x. get_data E n b = Inr x" and "\<forall>n b. get_addresses_data E n b = Inr []"
    and "\<forall>j<k. first_block + int j * PAGINATION_SIZE E < final_block"
    and "final_block \<le> first_block + int k * PAGINATION_SIZE E"
    and "int k < max_retries"
  shows "run_from E max_retries first_block final_block (Suc k + fuel) c =
     Some (Returned True k (int k)
       (info ((no_data E ^^ k) (info (c\<lparr>last_block := first_block\<rparr>) (Default_last_block first_block)))
          (Reached_the_last_block (first_block + int k * PAGINATION_SIZE E))))"
proof -
  let ?c0 = "info (c\<lparr>last_block := first_block\<rparr>) (Default_last_block first_block)"
  let ?ck = "(no_data E ^^ k) ?c0"
  have start: "last_block ?c0 = first_block"
    by (simp add: info_def)
  then have reached: "last_block ?ck = first_block + int k * PAGINATION_SIZE E"
    by (simp add: no_data_funpow)
  have "while_loop E max_retries final_block (k + Suc fuel) 0 0 ?c0 =
      while_loop E max_retries final_block (Suc fuel) (0 + k) (0 + int k) ?ck"
    using assms(3,5) start by (intro while_loop_no_data [OF assms(1,2)]) simp_all
  moreover have "loop_body E final_block k (int k) ?ck =
      Break (info ?ck (Reached_the_last_block (first_block + int k * PAGINATION_SIZE E)))"
    using assms(4) reached by (simp add: loop_body_def)
  ultimately have "while_loop E max_retries final_block (Suc k + fuel) 0 0 ?c0 =
      Some (Returned True k (int k)
        (info ?ck (Reached_the_last_block (first_block + int k * PAGINATION_SIZE E))))"
    using assms(5) by simp
  then show ?thesis
    using assms(5) by (simp add: run_from_def after_loop_def)
qed

lemma run_from_no_data_exhausted:
  assumes "\<forall>n b. \<exists>x. get_data E n b = Inr x" and "\<forall>n b. get_addresses_data E n b = Inr []"
    and "0 \<le> max_retries"
    and "\<forall>j<nat max_retries. first_block + int j * PAGINATION_SIZE E < final_block"
  shows "run_from E max_retries first_block final_block (Suc (nat max_retries) + fuel) c =
     Some (Returned False (nat max_retries) max_retries
       (info ((no_data E ^^ nat max_retries)
                (info (c\<lparr>last_block := first_block\<rparr>) (Default_last_block first_block)))
          (Reached_max_retries (first_block + max_retries * PAGINATION_SIZE E))))"
proof -
  let ?k = "nat max_retries"
  let ?c0 = "info (c\<lparr>last_block := first_block\<rparr>) (Default_last_block first_block)"
  let ?ck = "(no_data E ^^ ?k) ?c0"
  have start: "last_block ?c0 = first_block"
    by (simp add: info_def)
  then have reached: "last_block ?ck = first_block + max_retries * PAGINATION_SIZE E"
    using assms(3) by (simp add: no_data_funpow)
  have "while_loop E max_retries final_block (?k + Suc fuel) 0 0 ?c0 =
      while_loop E max_retries final_block (Suc fuel) (0 + ?k) (0 + int ?k) ?ck"
    using assms(3,4) start by (intro while_loop_no_data [OF assms(1,2)]) simp_all
  then have "while_loop E max_retries final_block (Suc ?k + fuel) 0 0 ?c0 =
      Some (Returned False ?k max_retries ?ck)"
    using assms(3) by simp
  then show ?thesis
    using reached by (simp add: run_from_def after_loop_def)
qed

lemma pages_to_final_block:
  fixes p :: int
  assumes "0 < p"
  defines "k \<equiv> nat ((637097 + p) div p)"
  shows "\<forall>j<k. 10854 + int j * p < 647952" and "647952 \<le> 10854 + int k * p" and "k \<le> 637098"
proof -
  let ?q = "(637097 + p) div p"
  have q: "?q = 637097 div p + 1"
    using assms(1) div_add_self2 [of p 637097] by linarith
  have "0 \<le> 637097 div p"
    using assms(1) by (simp add: pos_imp_zdiv_nonneg_iff)
  then have k: "int k = ?q"
    using q by (simp add: k_def)
  have split: "p * ?q + (637097 + p) mod p = 637097 + p"
    by (rule mult_div_mod_eq)
  have "0 \<le> (637097 + p) mod p" and "(637097 + p) mod p < p"
    using assms(1) by simp_all
  then have low: "?q * p \<le> 637097 + p" and high: "637097 + p < ?q * p + p"
    using split by (simp_all add: mult.commute)
  show "\<forall>j<k. 10854 + int j * p < 647952"
  proof (intro allI impI)
    fix j assume "j < k"
    then have "int j + 1 \<le> ?q" using k by linarith
    then have "(int j + 1) * p \<le> ?q * p"
      using assms(1) by (simp add: mult_right_mono)
    then show "10854 + int j * p < 647952"
      using low by (simp add: algebra_simps)
  qed
  show "647952 \<le> 10854 + int k * p"
    using high k by simp
  have "637097 div p \<le> 637097"
    using assms(1) zdiv_mono2 [of 637097 1 p] by simp
  then show "k \<le> 637098"
    using q k by linarith
qed

text \<open>
  C8, as the code has it. Let every fetch of the ordinary events be empty (and no
  fetch raise). From given bounds, the loop stops for exhausted retries, after
  exactly \<^verbatim>\<open>max_retries\<close> iterations and with the checkpoint at the first block plus
  \<^verbatim>\<open>max_retries\<close> pages, provided the checkpoint stays below the final block through
  all of them. With the constants of \<open>run\<close> (first block 10854, final block 647952,
  1000000 retries) and a positive page size it does not: the final block is reached
  first, after the least number of pages that covers the 637098 blocks between the
  two, and the loop is left by \<^verbatim>\<open>break\<close>. Enough fuel gives these results, so the
  loop does end. And an iteration that found data and ran to its end leaves
  \<^verbatim>\<open>retry\<close> at 0.
\<close>

theorem retry_exhaustion:
  "((\<forall>n b. \<exists>x. get_data E n b = Inr x) \<and> (\<forall>n b. get_addresses_data E n b = Inr []) \<longrightarrow>
      (0 \<le> max_retries \<and>
       (\<forall>j<nat max_retries. first_block + int j * PAGINATION_SIZE E < final_block) \<longrightarrow>
         (\<exists>res. run_from E max_retries first_block final_block (Suc (nat max_retries) + fuel) c =
                  Some res \<and>
                terminal_state max_retries res = Some RETRY_EXHAUSTED \<and>
                iterations res = nat max_retries \<and>
                checkpoint res = first_block + max_retries * PAGINATION_SIZE E)) \<and>
      (0 < PAGINATION_SIZE E \<longrightarrow>
         (\<exists>res. run E (Suc (nat ((637097 + PAGINATION_SIZE E) div PAGINATION_SIZE E)) + fuel) c =
                  Some res \<and>
                terminal_state 1000000 res = Some DONE \<and>
                iterations res = nat ((637097 + PAGINATION_SIZE E) div PAGINATION_SIZE E) \<and>
                iterations res < 1000000 \<and>
                checkpoint res = 10854 + int (iterations res) * PAGINATION_SIZE E \<and>
                647952 \<le> checkpoint res))) \<and>
   (get_addresses_data E n (last_block c) = Inr data \<and> data \<noteq> [] \<and>
    loop_body E final_block n retry c = Next retry' c' \<longrightarrow> retry' = 0)"
proof -
  let ?p = "PAGINATION_SIZE E"
  let ?k = "nat ((637097 + ?p) div ?p)"
  have exhausted: "\<exists>res. run_from E max_retries first_block final_block
        (Suc (nat max_retries) + fuel) c = Some res \<and>
      terminal_state max_retries res = Some RETRY_EXHAUSTED \<and>
      iterations res = nat max_retries \<and>
      checkpoint res = first_block + max_retries * ?p"
    if "\<forall>n b. \<exists>x. get_data E n b = Inr x" "\<forall>n b. get_addresses_data E n b = Inr []"
      "0 \<le> max_retries" "\<forall>j<nat max_retries. first_block + int j * ?p < final_block"
    using run_from_no_data_exhausted [OF that, of fuel c] that(3)
    by (simp add: info_def no_data_funpow)
  have final: "\<exists>res. run E (Suc ?k + fuel) c = Some res \<and>
      terminal_state 1000000 res = Some DONE \<and>
      iterations res = ?k \<and> iterations res < 1000000 \<and>
      checkpoint res = 10854 + int (iterations res) * ?p \<and> 647952 \<le> checkpoint res"
    if empty: "\<forall>n b. \<exists>x. get_data E n b = Inr x" "\<forall>n b. get_addresses_data E n b = Inr []"
      and positive: "0 < ?p"
  proof -
    define k where "k = ?k"
    have below: "\<forall>j<k. 10854 + int j * ?p < 647952"
      and reached: "647952 \<le> 10854 + int k * ?p" and "k \<le> 637098"
      unfolding k_def using pages_to_final_block [OF positive] by blast+
    then have few: "int k < 1000000"
      by linarith
    have "run E (Suc k + fuel) c =
        Some (Returned True k (int k)
          (info ((no_data E ^^ k) (info (c\<lparr>last_block := 10854\<rparr>) (Default_last_block 10854)))
             (Reached_the_last_block (10854 + int k * ?p))))"
      unfolding run_def using empty below reached few by (rule run_from_no_data_done)
    then have "\<exists>res. run E (Suc k + fuel) c = Some res \<and>
        terminal_state 1000000 res = Some DONE \<and>
        iterations res = k \<and> iterations res < 1000000 \<and>
        checkpoint res = 10854 + int (iterations res) * ?p \<and> 647952 \<le> checkpoint res"
      using reached few by (simp add: info_def no_data_funpow)
    then show ?thesis
      unfolding k_def .
  qed
  have reset: "retry' = 0"
    if "get_addresses_data E n (last_block c) = Inr data" "data \<noteq> []"
      "loop_body E final_block n retry c = Next retry' c'"
    using that save_last_block(1) [of E _ _ retry' c']
    by (auto simp: loop_body_def split: if_splits sum.splits prod.splits)
  show ?thesis
    using exhausted final reset by blast
qed

theorem retry_exhaustion_witness:
  "run_from market 2 10854 647952 (Suc (Suc (Suc 0))) (self_at 0) =
     Some (Returned False 2 2
       \<lparr>last_block = 12854, interest_rate_result = [],
          logged = [Default_last_block 10854, No_data_for_block 10854, No_data_for_block 11854,
                    Reached_max_retries 12854]\<rparr>) \<and>
   (\<exists>res. run market (Suc 638) (self_at 0) = Some res \<and>
      terminal_state 1000000 res = Some DONE \<and> iterations res = 638 \<and> checkpoint res = 648854) \<and>
   loop_body (fetching [] [mint 10900 1 10]) 647952 0 7 (self_at 10854) =
     Next 0 \<lparr>last_block = 11900, interest_rate_result = [],
              logged = [Processed_data_up_to_block 11900]\<rparr>"
proof -
  have empty: "(\<forall>n b. \<exists>x. get_data market n b = Inr x) \<and>
      (\<forall>n b. get_addresses_data market n b = Inr [])"
    by (simp add: instance_defs)
  have few: "0 \<le> (2::int) \<and>
      (\<forall>j<nat 2. 10854 + int j * PAGINATION_SIZE market < 647952)"
    by (simp add: instance_defs)
  have page: "PAGINATION_SIZE market = 1000"
    by (simp add: instance_defs)
  have one: "run_from market 2 10854 647952 (Suc (Suc (Suc 0))) (self_at 0) =
     Some (Returned False 2 2
       \<lparr>last_block = 12854, interest_rate_result = [],
          logged = [Default_last_block 10854, No_data_for_block 10854, No_data_for_block 11854,
                    Reached_max_retries 12854]\<rparr>)"
    by (simp add: run_from_def after_loop_def op_defs instance_defs)
  have three: "loop_body (fetching [] [mint 10900 1 10]) 647952 0 7 (self_at 10854) =
     Next 0 \<lparr>last_block = 11900, interest_rate_result = [],
              logged = [Processed_data_up_to_block 11900]\<rparr>"
    by (simp add: op_defs instance_defs)
  have data: "get_addresses_data (fetching [] [mint 10900 1 10]) 0 (last_block (self_at 10854)) =
      Inr [mint 10900 1 10]"
    by (simp add: instance_defs)
  have whole: "nat ((637097 + PAGINATION_SIZE market) div PAGINATION_SIZE market) = 638"
    by (simp add: page)
  obtain res where two: "run market (Suc 638) (self_at 0) = Some res"
      "terminal_state 1000000 res = Some DONE" "iterations res = 638"
      "checkpoint res = 10854 + int (iterations res) * PAGINATION_SIZE market"
    using retry_exhaustion [of market 2 10854 647952 0 "self_at 0" 0 "[]" 0 0 "self_at 0"]
      empty page
    unfolding whole by auto
  have four: "checkpoint res = 648854"
    using two(3,4) page by simp
  note reset = retry_exhaustion [of "fetching [] [mint 10900 1 10]" 0 0 647952 0 "self_at 10854" 0
      "[mint 10900 1 10]" 7 0 "\<lparr>last_block = 11900, interest_rate_result = [],
            logged = [Processed_data_up_to_block 11900]\<rparr>"]
  show ?thesis
    using one two(1,2,3) three four data reset by blast
qed

theorem retry_exhaustion_counterexample:
  "map_option (terminal_state 1000000) (run market (Suc 638) (self_at 0)) = Some (Some DONE) \<and>
   map_option iterations (run market (Suc 638) (self_at 0)) = Some 638 \<and>
   map_option checkpoint (run market (Suc 638) (self_at 0)) = Some 648854 \<and>
   (638::nat) \<noteq> 1000000 \<and>
   (648854::int) \<noteq> 10854 + 1000000 * PAGINATION_SIZE market"
proof -
  have empty: "\<forall>n b. \<exists>x. get_data market n b = Inr x"
      "\<forall>n b. get_addresses_data market n b = Inr []"
    by (simp_all add: instance_defs)
  have page: "PAGINATION_SIZE market = 1000"
    by (simp add: instance_defs)
  have below: "\<forall>j<638. 10854 + int j * PAGINATION_SIZE market < 647952"
    unfolding page by auto
  have reached: "647952 \<le> 10854 + int 638 * PAGINATION_SIZE market"
    unfolding page by simp
  have few: "int 638 < 1000000"
    by simp
  show ?thesis
    using run_from_no_data_done [OF empty below reached few, of 0 "self_at 0"]
    by (simp add: run_def info_def no_data_funpow page)
qed

end
